theory Spec2Isabelle
  imports Complex_Main "HOL-Library.Word"
begin

section \<open>Scalars and vectors\<close>

text \<open>
  The renderer computes with C++ \<^verbatim>\<open>float\<close> and GLM vectors. A \<^verbatim>\<open>float\<close> is modelled
  by a real number: arithmetic is exact, there is no rounding, no infinity and no NaN.
  The GLM operations used by the renderer (\<^verbatim>\<open>operator+\<close>, \<^verbatim>\<open>operator-\<close>,
  \<^verbatim>\<open>vec3 * float\<close>, \<^verbatim>\<open>glm::length\<close>, \<^verbatim>\<open>glm::mix\<close>, \<^verbatim>\<open>glm::clamp\<close>) belong to an
  external library; they are written out here as GLM documents them.
\<close>

datatype vec2 = Vec2 real real

datatype vec3 = Vec3 (vx: real) (vy: real) (vz: real)

datatype vec4 = Vec4 real real real real

datatype quat = Quat real real real real

definition vec3_add :: "vec3 \<Rightarrow> vec3 \<Rightarrow> vec3" where
  "vec3_add a b = Vec3 (vx a + vx b) (vy a + vy b) (vz a + vz b)"

definition vec3_sub :: "vec3 \<Rightarrow> vec3 \<Rightarrow> vec3" where
  "vec3_sub a b = Vec3 (vx a - vx b) (vy a - vy b) (vz a - vz b)"

definition vec3_scale :: "vec3 \<Rightarrow> real \<Rightarrow> vec3" where
  "vec3_scale a k = Vec3 (vx a * k) (vy a * k) (vz a * k)"

definition glm_length :: "vec3 \<Rightarrow> real" where
  "glm_length a = sqrt (vx a * vx a + vy a * vy a + vz a * vz a)"

definition glm_mix :: "real \<Rightarrow> real \<Rightarrow> real \<Rightarrow> real" where
  "glm_mix a b t = a * (1 - t) + b * t"

definition glm_clamp :: "real \<Rightarrow> real \<Rightarrow> real \<Rightarrow> real" where
  "glm_clamp a lo hi = min (max a lo) hi"

text \<open>
  A division of two floats. A zero divisor is made a failure of the model (\<open>None\<close>), so
  that "no division by zero is performed" is a statement about the functions below.
\<close>

definition float_div :: "real \<Rightarrow> real \<Rightarrow> real option" where
  "float_div a b = (if b = 0 then None else Some (a / b))"

text \<open>
  The conversion of a C++ \<^verbatim>\<open>int\<close> (32 bits, two's complement) to \<^verbatim>\<open>size_t\<close>
  (64 bits, unsigned), as it happens where an \<^verbatim>\<open>int\<close> is compared with
  \<^verbatim>\<open>vector::size()\<close> or used as a vector index: sign extension, read unsigned.
\<close>

definition size_t_of_int :: "32 word \<Rightarrow> nat" where
  "size_t_of_int i = unat (scast i :: 64 word)"

section \<open>Data model (CharacterRenderer.h)\<close>

record Vertex =
  vertex_position :: vec3
  normal :: vec3
  texCoords :: vec2
  boneIds :: vec4
  weights :: vec4

record PhysicsParticle =
  position :: vec3
  oldPosition :: vec3
  acceleration :: vec3
  mass :: real
  pinned :: bool

record MeshRegion =
  vertices :: "Vertex list"
  indices :: "32 word list"
  VAO :: "32 word"
  VBO :: "32 word"
  EBO :: "32 word"
  textureId :: "32 word"
  particles :: "PhysicsParticle list"
  constraints :: "(32 word \<times> 32 word) list"

datatype EmotionType = NEUTRAL | HAPPY | SAD | SURPRISED | ANGRY | THINKING | EXCITED

datatype Hand = LEFT | RIGHT

record FacialExpression =
  eyeOpenness :: real
  mouthOpenness :: real
  smileIntensity :: real
  browRaise :: real
  primaryEmotion :: EmotionType
  intensity :: real

record FingerPose =
  fingerBends :: "real list"
  handPosition :: vec3
  handRotation :: quat

record BodyParts =
  head :: MeshRegion
  hair :: MeshRegion
  leftEye :: MeshRegion
  rightEye :: MeshRegion
  mouth :: MeshRegion
  leftFingers :: "MeshRegion list"
  rightFingers :: "MeshRegion list"
  clothing :: MeshRegion
  skirt :: MeshRegion

text \<open>
  The character and the renderer. The members that hold pointers to incomplete types
  (\<^verbatim>\<open>skeleton\<close>, \<^verbatim>\<open>physics\<close>, \<^verbatim>\<open>window\<close>) and the camera matrices are left out: no
  function modelled below reads or writes them.
\<close>

record Character =
  char_vertices :: "Vertex list"
  char_indices :: "32 word list"
  parts :: BodyParts
  currentExpression :: FacialExpression
  leftHandPose :: FingerPose
  rightHandPose :: FingerPose
  breathingOffset :: vec3
  blinkTimer :: real
  hairStiffness :: real
  clothStiffness :: real
  windForce :: vec3

record CharacterRenderer =
  character :: Character
  characterShader :: "32 word"
  hairShader :: "32 word"
  clothShader :: "32 word"
  cameraPos :: vec3
  deltaTime :: real
  lastFrame :: real
  enablePhysics :: bool
  enableAntiAliasing :: bool
  targetFPS :: "32 word"

section \<open>Soft-body physics\<close>

text \<open>
  The body of the integration loop of \<^verbatim>\<open>UpdateHairPhysics\<close>, for one particle:
  a pinned particle is passed over (\<^verbatim>\<open>continue\<close>).
\<close>

definition integrate_particle :: "vec3 \<Rightarrow> real \<Rightarrow> PhysicsParticle \<Rightarrow> PhysicsParticle" where
  "integrate_particle wind dt particle =
     (if pinned particle then particle
      else
        (let temp = position particle;
             velocity = vec3_sub (position particle) (oldPosition particle);
             particle1 = particle\<lparr>acceleration := vec3_add (Vec3 0 (- 9.81) 0) wind\<rparr>;
             particle2 = particle1\<lparr>position :=
               vec3_add (position particle1)
                 (vec3_add (vec3_scale velocity 0.99)
                    (vec3_scale (vec3_scale (acceleration particle1) dt) dt))\<rparr>
         in particle2\<lparr>oldPosition := temp\<rparr>))"

text \<open>
  The body of the loop of \<^verbatim>\<open>SatisfyConstraints\<close>, for one constraint, on the particle
  list of the region. \<^verbatim>\<open>p1\<close> and \<^verbatim>\<open>p2\<close> are references into the vector, so the second
  update reads the list the first one has written.
\<close>

definition satisfy_constraint ::
  "PhysicsParticle list \<Rightarrow> 32 word \<times> 32 word \<Rightarrow> PhysicsParticle list option" where
  "satisfy_constraint ps constraint =
     (let i = size_t_of_int (fst constraint);
          j = size_t_of_int (snd constraint)
      in if i \<ge> length ps \<or> j \<ge> length ps then Some ps
         else
           (let delta = vec3_sub (position (ps ! j)) (position (ps ! i));
                distance = glm_length delta;
                restLength = 0.1
            in if distance > 0 then
                 (case float_div (restLength - distance) distance of
                    None \<Rightarrow> None
                  | Some difference \<Rightarrow>
                      (let translate = vec3_scale (vec3_scale delta difference) 0.5;
                           ps1 = (if \<not> pinned (ps ! i)
                                  then ps[i := (ps ! i)\<lparr>position :=
                                         vec3_sub (position (ps ! i)) translate\<rparr>]
                                  else ps);
                           ps2 = (if \<not> pinned (ps1 ! j)
                                  then ps1[j := (ps1 ! j)\<lparr>position :=
                                         vec3_add (position (ps1 ! j)) translate\<rparr>]
                                  else ps1)
                       in Some ps2))
               else Some ps))"

text \<open>The loop over the constraints of the region, in list order.\<close>

fun satisfy_all ::
  "PhysicsParticle list \<Rightarrow> (32 word \<times> 32 word) list \<Rightarrow> PhysicsParticle list option" where
  "satisfy_all ps [] = Some ps"
| "satisfy_all ps (c # cs) =
     (case satisfy_constraint ps c of
        None \<Rightarrow> None
      | Some ps' \<Rightarrow> satisfy_all ps' cs)"

definition SatisfyConstraints :: "MeshRegion \<Rightarrow> MeshRegion option" where
  "SatisfyConstraints region =
     (case satisfy_all (particles region) (constraints region) of
        None \<Rightarrow> None
      | Some ps \<Rightarrow> Some (region\<lparr>particles := ps\<rparr>))"

text \<open>
  \<^verbatim>\<open>ApplyPhysicsToMesh\<close>: vertex \<open>i\<close> takes the position of particle \<open>i\<close>, for every
  \<open>i\<close> below both sizes.
\<close>

fun write_back :: "PhysicsParticle list \<Rightarrow> Vertex list \<Rightarrow> Vertex list" where
  "write_back (p # ps) (v # vs) = v\<lparr>vertex_position := position p\<rparr> # write_back ps vs"
| "write_back ps vs = vs"

definition ApplyPhysicsToMesh :: "MeshRegion \<Rightarrow> MeshRegion" where
  "ApplyPhysicsToMesh region =
     region\<lparr>vertices := write_back (particles region) (vertices region)\<rparr>"

definition UpdateHairPhysics :: "real \<Rightarrow> CharacterRenderer \<Rightarrow> CharacterRenderer option" where
  "UpdateHairPhysics dt s =
     (let c = character s; h = hair (parts c)
      in if particles h = [] then Some s
         else
           (case SatisfyConstraints
                   (h\<lparr>particles := map (integrate_particle (windForce c) dt) (particles h)\<rparr>) of
              None \<Rightarrow> None
            | Some h' \<Rightarrow>
                Some (s\<lparr>character := c\<lparr>parts := (parts c)\<lparr>hair := ApplyPhysicsToMesh h'\<rparr>\<rparr>\<rparr>)))"

definition UpdateClothPhysics :: "real \<Rightarrow> CharacterRenderer \<Rightarrow> CharacterRenderer option" where
  "UpdateClothPhysics dt s =
     (if particles (skirt (parts (character s))) = [] then Some s
      else UpdateHairPhysics dt s)"

text \<open>
  \<open>n\<close> relaxation passes over one region, each a call of \<^verbatim>\<open>SatisfyConstraints\<close> (the
  renderer makes one such call per physics update).
\<close>

fun SatisfyConstraints_passes :: "nat \<Rightarrow> MeshRegion \<Rightarrow> MeshRegion option" where
  "SatisfyConstraints_passes 0 region = Some region"
| "SatisfyConstraints_passes (Suc n) region =
     (case SatisfyConstraints region of
        None \<Rightarrow> None
      | Some region' \<Rightarrow> SatisfyConstraints_passes n region')"

section \<open>Facial expression\<close>

text \<open>
  \<^verbatim>\<open>InterpolateExpression\<close> mixes the four facial parameters of the current expression
  with those of the target; the factor is the renderer's stored \<^verbatim>\<open>deltaTime\<close> times
  \<^verbatim>\<open>speed\<close>. The emotion and the intensity of the target are not copied.
\<close>

definition InterpolateExpression ::
  "FacialExpression \<Rightarrow> real \<Rightarrow> CharacterRenderer \<Rightarrow> CharacterRenderer" where
  "InterpolateExpression target speed s =
     (let factor = deltaTime s * speed;
          cur = currentExpression (character s)
      in s\<lparr>character := (character s)\<lparr>currentExpression := cur
           \<lparr>eyeOpenness := glm_mix (eyeOpenness cur) (eyeOpenness target) factor,
            mouthOpenness := glm_mix (mouthOpenness cur) (mouthOpenness target) factor,
            smileIntensity := glm_mix (smileIntensity cur) (smileIntensity target) factor,
            browRaise := glm_mix (browRaise cur) (browRaise target) factor\<rparr>\<rparr>\<rparr>)"

definition AnimateFacialExpression :: "FacialExpression \<Rightarrow> CharacterRenderer \<Rightarrow> CharacterRenderer" where
  "AnimateFacialExpression expression s = InterpolateExpression expression 2 s"

text \<open>
  The local \<^verbatim>\<open>expression\<close> that \<^verbatim>\<open>SetEmotion\<close> builds from the current expression,
  the emotion and the intensity, before it hands it to \<^verbatim>\<open>AnimateFacialExpression\<close>.
\<close>

definition SetEmotion_expression ::
  "FacialExpression \<Rightarrow> EmotionType \<Rightarrow> real \<Rightarrow> FacialExpression" where
  "SetEmotion_expression current emotion inten =
     (let expression = current\<lparr>primaryEmotion := emotion, intensity := glm_clamp inten 0 1\<rparr>
      in case emotion of
           HAPPY \<Rightarrow> expression\<lparr>smileIntensity := inten, eyeOpenness := 1 + inten * 0.2\<rparr>
         | SAD \<Rightarrow> expression\<lparr>smileIntensity := - inten * 0.5,
                                eyeOpenness := 1 - inten * 0.3,
                                browRaise := - inten * 0.4\<rparr>
         | SURPRISED \<Rightarrow> expression\<lparr>eyeOpenness := 1 + inten * 0.5,
                                      browRaise := inten * 0.6,
                                      mouthOpenness := inten * 0.3\<rparr>
         | THINKING \<Rightarrow> expression\<lparr>eyeOpenness := 1 - inten * 0.2,
                                     browRaise := inten * 0.3\<rparr>
         | _ \<Rightarrow> expression)"

definition SetEmotion :: "EmotionType \<Rightarrow> real \<Rightarrow> CharacterRenderer \<Rightarrow> CharacterRenderer" where
  "SetEmotion emotion inten s =
     AnimateFacialExpression
       (SetEmotion_expression (currentExpression (character s)) emotion inten) s"

section \<open>Idle animation and the frame update\<close>

definition TriggerBlink :: "CharacterRenderer \<Rightarrow> CharacterRenderer" where
  "TriggerBlink s =
     s\<lparr>character := (character s)\<lparr>currentExpression :=
          (currentExpression (character s))\<lparr>eyeOpenness := 0.1\<rparr>\<rparr>\<rparr>"

text \<open>
  \<^verbatim>\<open>UpdateIdleAnimations\<close>. The call of \<^verbatim>\<open>rand()\<close> is an input: \<open>rnd\<close> is the value it
  returns (never negative). The timer grows by the renderer's stored \<^verbatim>\<open>deltaTime\<close>.
\<close>

definition UpdateIdleAnimations :: "real \<Rightarrow> nat \<Rightarrow> CharacterRenderer \<Rightarrow> CharacterRenderer" where
  "UpdateIdleAnimations time rnd s =
     (let breathingFreq = 0.25;
          breathingAmp = 0.02;
          c = character s;
          c1 = c\<lparr>breathingOffset :=
                 Vec3 (vx (breathingOffset c))
                      (sin (time * breathingFreq * 2 * pi) * breathingAmp)
                      (vz (breathingOffset c))\<rparr>;
          c2 = c1\<lparr>blinkTimer := blinkTimer c1 + deltaTime s\<rparr>;
          s2 = s\<lparr>character := c2\<rparr>
      in if blinkTimer c2 > 3 + real (rnd mod 3)
         then (let s3 = TriggerBlink s2
               in s3\<lparr>character := (character s3)\<lparr>blinkTimer := 0\<rparr>\<rparr>)
         else s2)"

definition ApplyMorphTargets :: "CharacterRenderer \<Rightarrow> CharacterRenderer" where
  "ApplyMorphTargets s = s"

text \<open>
  \<^verbatim>\<open>UpdateAnimation\<close>. \<open>now\<close> is what \<^verbatim>\<open>glfwGetTime()\<close> returns. The parameter \<open>dt\<close> is
  stored and at once overwritten by the measured frame time; the physics calls receive
  the parameter, the blink timer the stored value.
\<close>

definition UpdateAnimation ::
  "real \<Rightarrow> real \<Rightarrow> nat \<Rightarrow> CharacterRenderer \<Rightarrow> CharacterRenderer option" where
  "UpdateAnimation dt now rnd s =
     (let s1 = s\<lparr>deltaTime := dt\<rparr>;
          currentFrame = now;
          s2 = s1\<lparr>deltaTime := currentFrame - lastFrame s1\<rparr>;
          s3 = s2\<lparr>lastFrame := currentFrame\<rparr>;
          s4 = UpdateIdleAnimations currentFrame rnd s3
      in if enablePhysics s4
         then (case UpdateHairPhysics dt s4 of
                 None \<Rightarrow> None
               | Some s5 \<Rightarrow>
                   (case UpdateClothPhysics dt s5 of
                      None \<Rightarrow> None
                    | Some s6 \<Rightarrow> Some (ApplyMorphTargets s6)))
         else Some (ApplyMorphTargets s4))"

section \<open>Concrete states\<close>

text \<open>
  The particle that \<^verbatim>\<open>InitializePhysicsParticles\<close> builds at a position (at rest, unit
  mass), a region that holds given particles and constraints with one vertex per
  particle, and a renderer whose other members have the initial values of the header.
\<close>

abbreviation hair_particles :: "CharacterRenderer \<Rightarrow> PhysicsParticle list" where
  "hair_particles s \<equiv> particles (hair (parts (character s)))"

abbreviation skirt_particles :: "CharacterRenderer \<Rightarrow> PhysicsParticle list" where
  "skirt_particles s \<equiv> particles (skirt (parts (character s)))"

definition particle_at :: "vec3 \<Rightarrow> bool \<Rightarrow> PhysicsParticle" where
  "particle_at p b =
     \<lparr>position = p, oldPosition = p, acceleration = Vec3 0 0 0, mass = 1, pinned = b\<rparr>"

definition vertex_at :: "vec3 \<Rightarrow> Vertex" where
  "vertex_at p =
     \<lparr>vertex_position = p, normal = Vec3 0 0 1, texCoords = Vec2 0 0,
      boneIds = Vec4 0 0 0 0, weights = Vec4 0 0 0 0\<rparr>"

definition region_of :: "PhysicsParticle list \<Rightarrow> (32 word \<times> 32 word) list \<Rightarrow> MeshRegion" where
  "region_of ps cs =
     \<lparr>vertices = map (\<lambda>p. vertex_at (position p)) ps, indices = [],
      VAO = 0, VBO = 0, EBO = 0, textureId = 0, particles = ps, constraints = cs\<rparr>"

definition default_expression :: FacialExpression where
  "default_expression =
     \<lparr>eyeOpenness = 1, mouthOpenness = 0, smileIntensity = 0, browRaise = 0,
      primaryEmotion = NEUTRAL, intensity = 0.5\<rparr>"

definition default_pose :: FingerPose where
  "default_pose =
     \<lparr>fingerBends = [0, 0, 0, 0, 0], handPosition = Vec3 0 0 0, handRotation = Quat 1 0 0 0\<rparr>"

definition renderer_of :: "MeshRegion \<Rightarrow> MeshRegion \<Rightarrow> real \<Rightarrow> real \<Rightarrow> CharacterRenderer" where
  "renderer_of h sk timer dt =
     \<lparr>character =
        \<lparr>char_vertices = [], char_indices = [],
         parts = \<lparr>head = region_of [] [], hair = h, leftEye = region_of [] [],
                  rightEye = region_of [] [], mouth = region_of [] [],
                  leftFingers = replicate 5 (region_of [] []),
                  rightFingers = replicate 5 (region_of [] []),
                  clothing = region_of [] [], skirt = sk\<rparr>,
         currentExpression = default_expression,
         leftHandPose = default_pose, rightHandPose = default_pose,
         breathingOffset = Vec3 0 0 0, blinkTimer = timer,
         hairStiffness = 0.8, clothStiffness = 0.6, windForce = Vec3 0 0 0\<rparr>,
      characterShader = 0, hairShader = 0, clothShader = 0,
      cameraPos = Vec3 0 0 3, deltaTime = dt, lastFrame = 0,
      enablePhysics = True, enableAntiAliasing = True, targetFPS = 60\<rparr>"

abbreviation current :: "CharacterRenderer \<Rightarrow> FacialExpression" where
  "current s \<equiv> currentExpression (character s)"

text \<open>A renderer without particles, with a given blink timer and stored frame time.\<close>

definition bare_renderer :: "real \<Rightarrow> real \<Rightarrow> CharacterRenderer" where
  "bare_renderer timer dt = renderer_of (region_of [] []) (region_of [] []) timer dt"

text \<open>
  A strand of two particles, the first pinned at the origin, the second free at height
  \<open>y\<close>, joined by one constraint.
\<close>

definition strand :: "real \<Rightarrow> MeshRegion" where
  "strand y = region_of [particle_at (Vec3 0 0 0) True, particle_at (Vec3 0 y 0) False] [(0, 1)]"

text \<open>
  The distance between the two particles of a two-particle region, as the constraint
  pass measures it.
\<close>

definition endpoint_distance :: "PhysicsParticle list \<Rightarrow> real" where
  "endpoint_distance ps = glm_length (vec3_sub (position (ps ! 1)) (position (ps ! 0)))"

section \<open>The constraint pass: what it never touches\<close>

lemma satisfy_constraint_total: "\<exists>ps'. satisfy_constraint ps c = Some ps'"
  by (simp add: satisfy_constraint_def Let_def float_div_def)

lemma satisfy_constraint_length:
  "satisfy_constraint ps c = Some ps' \<Longrightarrow> length ps' = length ps"
  unfolding satisfy_constraint_def Let_def float_div_def
  by (auto split: if_splits)

lemma satisfy_constraint_pinned:
  "satisfy_constraint ps c = Some ps' \<Longrightarrow> k < length ps \<Longrightarrow> pinned (ps ! k) \<Longrightarrow>
     ps' ! k = ps ! k"
  unfolding satisfy_constraint_def Let_def float_div_def
  by (auto simp: nth_list_update split: if_splits)

lemma satisfy_constraint_frame:
  "satisfy_constraint ps c = Some ps' \<Longrightarrow> k < length ps \<Longrightarrow>
     oldPosition (ps' ! k) = oldPosition (ps ! k) \<and>
     acceleration (ps' ! k) = acceleration (ps ! k) \<and>
     mass (ps' ! k) = mass (ps ! k) \<and>
     pinned (ps' ! k) = pinned (ps ! k)"
  unfolding satisfy_constraint_def Let_def float_div_def
  by (auto simp: nth_list_update split: if_splits)

lemma satisfy_all_total: "\<exists>ps'. satisfy_all ps cs = Some ps'"
proof (induction cs arbitrary: ps)
  case Nil
  show ?case by simp
next
  case (Cons c cs)
  obtain ps1 where "satisfy_constraint ps c = Some ps1"
    using satisfy_constraint_total by blast
  with Cons.IH [of ps1] show ?case by simp
qed

lemma satisfy_all_length:
  "satisfy_all ps cs = Some ps' \<Longrightarrow> length ps' = length ps"
proof (induction cs arbitrary: ps)
  case Nil
  then show ?case by simp
next
  case (Cons c cs)
  then show ?case
    by (auto split: option.splits dest: satisfy_constraint_length)
qed

lemma satisfy_all_pinned:
  "satisfy_all ps cs = Some ps' \<Longrightarrow> k < length ps \<Longrightarrow> pinned (ps ! k) \<Longrightarrow> ps' ! k = ps ! k"
proof (induction cs arbitrary: ps)
  case Nil
  then show ?case by simp
next
  case (Cons c cs)
  from Cons.prems(1) obtain ps1 where
    s1: "satisfy_constraint ps c = Some ps1" and s2: "satisfy_all ps1 cs = Some ps'"
    by (auto split: option.splits)
  have l: "length ps1 = length ps" using s1 by (rule satisfy_constraint_length)
  have e: "ps1 ! k = ps ! k" using s1 Cons.prems(2,3) by (rule satisfy_constraint_pinned)
  have "ps' ! k = ps1 ! k"
    using s2 Cons.prems(2,3) l e by (intro Cons.IH) simp_all
  with e show ?case by simp
qed

lemma satisfy_all_frame:
  "satisfy_all ps cs = Some ps' \<Longrightarrow> k < length ps \<Longrightarrow>
     oldPosition (ps' ! k) = oldPosition (ps ! k) \<and>
     acceleration (ps' ! k) = acceleration (ps ! k) \<and>
     mass (ps' ! k) = mass (ps ! k) \<and>
     pinned (ps' ! k) = pinned (ps ! k)"
proof (induction cs arbitrary: ps)
  case Nil
  then show ?case by simp
next
  case (Cons c cs)
  from Cons.prems(1) obtain ps1 where
    s1: "satisfy_constraint ps c = Some ps1" and s2: "satisfy_all ps1 cs = Some ps'"
    by (auto split: option.splits)
  have l: "length ps1 = length ps" using s1 by (rule satisfy_constraint_length)
  note e = satisfy_constraint_frame [OF s1 Cons.prems(2)]
  have k1: "k < length ps1" using l Cons.prems(2) by simp
  note f = Cons.IH [OF s2 k1]
  from e f show ?case by simp
qed

lemma SatisfyConstraints_total: "\<exists>r'. SatisfyConstraints r = Some r'"
  using satisfy_all_total [of "particles r" "constraints r"]
  by (auto simp: SatisfyConstraints_def)

section \<open>The physics update of the hair\<close>

lemma UpdateHairPhysics_empty:
  "hair_particles s = [] \<Longrightarrow> UpdateHairPhysics dt s = Some s"
  by (simp add: UpdateHairPhysics_def Let_def)

lemma UpdateHairPhysics_nonempty:
  assumes "hair_particles s \<noteq> []"
  shows "\<exists>ps'. satisfy_all (map (integrate_particle (windForce (character s)) dt) (hair_particles s))
                  (constraints (hair (parts (character s)))) = Some ps' \<and>
               UpdateHairPhysics dt s =
                 Some (s\<lparr>character := (character s)\<lparr>parts := (parts (character s))\<lparr>hair :=
                   (hair (parts (character s)))\<lparr>particles := ps',
                      vertices := write_back ps' (vertices (hair (parts (character s))))\<rparr>\<rparr>\<rparr>\<rparr>)"
proof -
  obtain ps' where
    "satisfy_all (map (integrate_particle (windForce (character s)) dt) (hair_particles s))
       (constraints (hair (parts (character s)))) = Some ps'"
    using satisfy_all_total by blast
  then show ?thesis using assms
    by (simp add: UpdateHairPhysics_def Let_def SatisfyConstraints_def ApplyPhysicsToMesh_def)
qed

lemma UpdateHairPhysics_total: "\<exists>s'. UpdateHairPhysics dt s = Some s'"
proof (cases "hair_particles s = []")
  case True
  then show ?thesis by (simp add: UpdateHairPhysics_empty)
next
  case False
  from UpdateHairPhysics_nonempty [OF False, of dt] show ?thesis by blast
qed

lemma UpdateHairPhysics_pinned:
  assumes k: "k < length (hair_particles s)" and p: "pinned (hair_particles s ! k)"
    and u: "UpdateHairPhysics dt s = Some s'"
  shows "length (hair_particles s') = length (hair_particles s) \<and>
         hair_particles s' ! k = hair_particles s ! k"
proof -
  let ?w = "windForce (character s)"
  let ?ps = "map (integrate_particle ?w dt) (hair_particles s)"
  from k have ne: "hair_particles s \<noteq> []" by auto
  from UpdateHairPhysics_nonempty [OF ne, of dt] u obtain ps' where
    sa: "satisfy_all ?ps (constraints (hair (parts (character s)))) = Some ps'" and
    s': "hair_particles s' = ps'"
    by auto
  have l: "length ps' = length ?ps" using sa by (rule satisfy_all_length)
  have i: "?ps ! k = hair_particles s ! k" using k p by (simp add: integrate_particle_def)
  have "ps' ! k = ?ps ! k"
    using sa k p i by (intro satisfy_all_pinned) simp_all
  with l i s' show ?thesis by simp
qed

text \<open>
  C1. A pinned particle of the hair region is left as it is (position, oldPosition and
  every other field) by one physics update, \<^verbatim>\<open>UpdateHairPhysics\<close>, whatever the time
  step, the wind and the constraints are; the update returns, and the particle list keeps
  its length. The same holds when the update is reached through \<^verbatim>\<open>UpdateClothPhysics\<close>,
  and for the constraint pass \<^verbatim>\<open>SatisfyConstraints\<close> alone on any region.
\<close>

theorem pinned_particle_unchanged:
  "(k < length (hair_particles s) \<and> pinned (hair_particles s ! k) \<longrightarrow>
      (\<exists>s'. UpdateHairPhysics dt s = Some s' \<and>
            length (hair_particles s') = length (hair_particles s) \<and>
            position (hair_particles s' ! k) = position (hair_particles s ! k) \<and>
            oldPosition (hair_particles s' ! k) = oldPosition (hair_particles s ! k) \<and>
            hair_particles s' ! k = hair_particles s ! k) \<and>
      (\<exists>s'. UpdateClothPhysics dt s = Some s' \<and>
            length (hair_particles s') = length (hair_particles s) \<and>
            position (hair_particles s' ! k) = position (hair_particles s ! k) \<and>
            oldPosition (hair_particles s' ! k) = oldPosition (hair_particles s ! k) \<and>
            hair_particles s' ! k = hair_particles s ! k)) \<and>
   (j < length (particles r) \<and> pinned (particles r ! j) \<longrightarrow>
      (\<exists>r'. SatisfyConstraints r = Some r' \<and>
            length (particles r') = length (particles r) \<and>
            particles r' ! j = particles r ! j))"
proof (intro conjI impI)
  assume a: "k < length (hair_particles s) \<and> pinned (hair_particles s ! k)"
  obtain s' where u: "UpdateHairPhysics dt s = Some s'"
    using UpdateHairPhysics_total by blast
  from UpdateHairPhysics_pinned [OF _ _ u, of k] a
  have f: "length (hair_particles s') = length (hair_particles s) \<and>
         hair_particles s' ! k = hair_particles s ! k" by simp
  with u show "\<exists>s'. UpdateHairPhysics dt s = Some s' \<and>
            length (hair_particles s') = length (hair_particles s) \<and>
            position (hair_particles s' ! k) = position (hair_particles s ! k) \<and>
            oldPosition (hair_particles s' ! k) = oldPosition (hair_particles s ! k) \<and>
            hair_particles s' ! k = hair_particles s ! k" by simp
  show "\<exists>s'. UpdateClothPhysics dt s = Some s' \<and>
            length (hair_particles s') = length (hair_particles s) \<and>
            position (hair_particles s' ! k) = position (hair_particles s ! k) \<and>
            oldPosition (hair_particles s' ! k) = oldPosition (hair_particles s ! k) \<and>
            hair_particles s' ! k = hair_particles s ! k"
  proof (cases "skirt_particles s = []")
    case True
    then show ?thesis by (simp add: UpdateClothPhysics_def)
  next
    case False
    then have "UpdateClothPhysics dt s = Some s'" using u by (simp add: UpdateClothPhysics_def)
    with f show ?thesis by simp
  qed
next
  assume a: "j < length (particles r) \<and> pinned (particles r ! j)"
  obtain ps' where sa: "satisfy_all (particles r) (constraints r) = Some ps'"
    using satisfy_all_total by blast
  have "length ps' = length (particles r)" using sa by (rule satisfy_all_length)
  moreover have "ps' ! j = particles r ! j" using sa a by (intro satisfy_all_pinned) simp_all
  ultimately show "\<exists>r'. SatisfyConstraints r = Some r' \<and>
            length (particles r') = length (particles r) \<and>
            particles r' ! j = particles r ! j"
    using sa by (simp add: SatisfyConstraints_def)
qed

theorem pinned_particle_unchanged_witness:
  "(0 < length (hair_particles (renderer_of (strand 1) (strand 1) 0 0)) \<and>
    pinned (hair_particles (renderer_of (strand 1) (strand 1) 0 0) ! 0)) \<and>
   (\<exists>s'. UpdateHairPhysics (1 / 60) (renderer_of (strand 1) (strand 1) 0 0) = Some s' \<and>
         position (hair_particles s' ! 0) = Vec3 0 0 0 \<and>
         oldPosition (hair_particles s' ! 0) = Vec3 0 0 0) \<and>
   (0 < length (particles (strand 1)) \<and> pinned (particles (strand 1) ! 0)) \<and>
   (\<exists>r'. SatisfyConstraints (strand 1) = Some r' \<and>
         particles r' ! 0 = particle_at (Vec3 0 0 0) True)"
proof -
  let ?s = "renderer_of (strand 1) (strand 1) 0 0"
  have h: "0 < length (hair_particles ?s) \<and> pinned (hair_particles ?s ! 0)"
    by (simp add: renderer_of_def strand_def region_of_def particle_at_def)
  have g: "0 < length (particles (strand 1)) \<and> pinned (particles (strand 1) ! 0)"
    by (simp add: strand_def region_of_def particle_at_def)
  have p0: "hair_particles ?s ! 0 = particle_at (Vec3 0 0 0) True"
    by (simp add: renderer_of_def strand_def region_of_def)
  have q0: "particles (strand 1) ! 0 = particle_at (Vec3 0 0 0) True"
    by (simp add: strand_def region_of_def)
  from pinned_particle_unchanged [of 0 ?s "1 / 60" 0 "strand 1"] h g
  have "(\<exists>s'. UpdateHairPhysics (1 / 60) ?s = Some s' \<and>
           hair_particles s' ! 0 = hair_particles ?s ! 0) \<and>
        (\<exists>r'. SatisfyConstraints (strand 1) = Some r' \<and>
           particles r' ! 0 = particles (strand 1) ! 0)"
    by blast
  then have "(\<exists>s'. UpdateHairPhysics (1 / 60) ?s = Some s' \<and>
           hair_particles s' ! 0 = particle_at (Vec3 0 0 0) True) \<and>
        (\<exists>r'. SatisfyConstraints (strand 1) = Some r' \<and>
           particles r' ! 0 = particle_at (Vec3 0 0 0) True)"
    unfolding p0 q0 .
  then have "(\<exists>s'. UpdateHairPhysics (1 / 60) ?s = Some s' \<and>
           position (hair_particles s' ! 0) = Vec3 0 0 0 \<and>
           oldPosition (hair_particles s' ! 0) = Vec3 0 0 0) \<and>
        (\<exists>r'. SatisfyConstraints (strand 1) = Some r' \<and>
           particles r' ! 0 = particle_at (Vec3 0 0 0) True)"
    by (auto simp: particle_at_def)
  with h g show ?thesis by blast
qed

lemma satisfy_all_no_particles: "satisfy_all [] cs = Some []"
  by (induction cs) (simp_all add: satisfy_constraint_def Let_def)

text \<open>
  C8. The physics update of a region whose particle list is empty returns, and returns
  the renderer it was given: \<^verbatim>\<open>UpdateHairPhysics\<close> when the hair has no particles,
  \<^verbatim>\<open>UpdateClothPhysics\<close> when the skirt has none (and also when the hair has none). The
  two helpers are as silent on such a region: \<^verbatim>\<open>SatisfyConstraints\<close> and
  \<^verbatim>\<open>ApplyPhysicsToMesh\<close> return it unchanged, whatever constraints and vertices it holds.
\<close>

theorem empty_region_noop:
  "(hair_particles s = [] \<longrightarrow>
      UpdateHairPhysics dt s = Some s \<and> UpdateClothPhysics dt s = Some s) \<and>
   (skirt_particles s = [] \<longrightarrow> UpdateClothPhysics dt s = Some s) \<and>
   (particles r = [] \<longrightarrow> SatisfyConstraints r = Some r \<and> ApplyPhysicsToMesh r = r)"
  by (simp add: UpdateClothPhysics_def UpdateHairPhysics_empty SatisfyConstraints_def
      ApplyPhysicsToMesh_def satisfy_all_no_particles)

theorem empty_region_noop_witness:
  "hair_particles (renderer_of (region_of [] [(0, 1)]) (region_of [] []) 0 0) = [] \<and>
   skirt_particles (renderer_of (region_of [] [(0, 1)]) (region_of [] []) 0 0) = [] \<and>
   particles (region_of [] [(0, 1)]) = [] \<and>
   UpdateHairPhysics (1 / 60) (renderer_of (region_of [] [(0, 1)]) (region_of [] []) 0 0) =
     Some (renderer_of (region_of [] [(0, 1)]) (region_of [] []) 0 0) \<and>
   UpdateClothPhysics (1 / 60) (renderer_of (region_of [] [(0, 1)]) (region_of [] []) 0 0) =
     Some (renderer_of (region_of [] [(0, 1)]) (region_of [] []) 0 0) \<and>
   SatisfyConstraints (region_of [] [(0, 1)]) = Some (region_of [] [(0, 1)])"
proof -
  let ?s = "renderer_of (region_of [] [(0, 1)]) (region_of [] []) 0 0"
  have h: "hair_particles ?s = []" by (simp add: renderer_of_def region_of_def)
  have k: "skirt_particles ?s = []" by (simp add: renderer_of_def region_of_def)
  have r: "particles (region_of [] [(0, 1)]) = []" by (simp add: region_of_def)
  from empty_region_noop [of ?s "1 / 60" "region_of [] [(0, 1)]"] h k r show ?thesis by blast
qed

section \<open>The physics update of the skirt\<close>

text \<open>
  C10. When the skirt has particles, \<^verbatim>\<open>UpdateClothPhysics\<close> is \<^verbatim>\<open>UpdateHairPhysics\<close>: it
  returns, the skirt region (its particles and its vertices among the rest) is what it
  was, and the new renderer differs from the old one in the hair region at most.
\<close>

theorem UpdateClothPhysics_frame:
  "skirt_particles s \<noteq> [] \<Longrightarrow>
     UpdateClothPhysics dt s = UpdateHairPhysics dt s \<and>
     (\<exists>s'. UpdateClothPhysics dt s = Some s' \<and>
           skirt (parts (character s')) = skirt (parts (character s)) \<and>
           particles (skirt (parts (character s'))) = particles (skirt (parts (character s))) \<and>
           vertices (skirt (parts (character s'))) = vertices (skirt (parts (character s))) \<and>
           s' = s\<lparr>character := (character s)\<lparr>parts := (parts (character s))\<lparr>hair :=
                  hair (parts (character s'))\<rparr>\<rparr>\<rparr>)"
proof -
  assume ne: "skirt_particles s \<noteq> []"
  then have e: "UpdateClothPhysics dt s = UpdateHairPhysics dt s"
    by (simp add: UpdateClothPhysics_def)
  have "\<exists>s'. UpdateHairPhysics dt s = Some s' \<and>
           skirt (parts (character s')) = skirt (parts (character s)) \<and>
           s' = s\<lparr>character := (character s)\<lparr>parts := (parts (character s))\<lparr>hair :=
                  hair (parts (character s'))\<rparr>\<rparr>\<rparr>"
  proof (cases "hair_particles s = []")
    case True
    then show ?thesis by (simp add: UpdateHairPhysics_empty)
  next
    case False
    from UpdateHairPhysics_nonempty [OF False, of dt] show ?thesis by auto
  qed
  with e show ?thesis by auto
qed

theorem UpdateClothPhysics_frame_witness:
  "skirt_particles (renderer_of (strand 1) (strand 2) 0 0) \<noteq> [] \<and>
   (\<exists>s'. UpdateClothPhysics (1 / 60) (renderer_of (strand 1) (strand 2) 0 0) = Some s' \<and>
         skirt (parts (character s')) = strand 2)"
proof -
  let ?s = "renderer_of (strand 1) (strand 2) 0 0"
  have h: "skirt_particles ?s \<noteq> []"
    by (simp add: renderer_of_def strand_def region_of_def)
  have k: "skirt (parts (character ?s)) = strand 2"
    by (simp add: renderer_of_def)
  from UpdateClothPhysics_frame [OF h, of "1 / 60"]
  have "\<exists>s'. UpdateClothPhysics (1 / 60) ?s = Some s' \<and>
         skirt (parts (character s')) = strand 2"
    unfolding k by blast
  with h show ?thesis by blast
qed

section \<open>The integration step\<close>

lemma integrate_particle_unpinned:
  "\<not> pinned p \<Longrightarrow>
     integrate_particle w dt p =
       p\<lparr>acceleration := Vec3 (0 + vx w) (- 9.81 + vy w) (0 + vz w),
         position := Vec3
           (vx (position p) + ((vx (position p) - vx (oldPosition p)) * 0.99 + (0 + vx w) * dt\<^sup>2))
           (vy (position p) + ((vy (position p) - vy (oldPosition p)) * 0.99 + (- 9.81 + vy w) * dt\<^sup>2))
           (vz (position p) + ((vz (position p) - vz (oldPosition p)) * 0.99 + (0 + vz w) * dt\<^sup>2)),
         oldPosition := position p\<rparr>"
  by (simp add: integrate_particle_def Let_def vec3_add_def vec3_sub_def vec3_scale_def
      power2_eq_square)

text \<open>
  C2. For an unpinned particle \<open>p\<close> of the hair, the integration loop of
  \<^verbatim>\<open>UpdateHairPhysics\<close> with time step \<open>dt\<close> gives, component by component,
  acceleration \<open>a = (0, -9.81, 0) + windForce\<close>, position
  \<open>position p + (position p - oldPosition p) * 0.99 + a * dt\<^sup>2\<close> and oldPosition
  \<open>position p\<close>; mass and pin state stay. The whole update returns and keeps that
  oldPosition and acceleration (the constraint pass moves positions only); with no
  constraint in the region the position after the update is the one of the rule.
\<close>

theorem verlet_step_rule:
  assumes k: "k < length (hair_particles s)" and u: "\<not> pinned (hair_particles s ! k)"
  shows "let p = hair_particles s ! k;
             w = windForce (character s);
             q = map (integrate_particle w dt) (hair_particles s) ! k;
             a = Vec3 (0 + vx w) (- 9.81 + vy w) (0 + vz w);
             new = Vec3
               (vx (position p) + (vx (position p) - vx (oldPosition p)) * 0.99 + vx a * dt\<^sup>2)
               (vy (position p) + (vy (position p) - vy (oldPosition p)) * 0.99 + vy a * dt\<^sup>2)
               (vz (position p) + (vz (position p) - vz (oldPosition p)) * 0.99 + vz a * dt\<^sup>2)
         in position q = new \<and> oldPosition q = position p \<and> acceleration q = a \<and>
            mass q = mass p \<and> pinned q = pinned p \<and>
            (\<exists>s'. UpdateHairPhysics dt s = Some s' \<and>
                  length (hair_particles s') = length (hair_particles s) \<and>
                  oldPosition (hair_particles s' ! k) = position p \<and>
                  acceleration (hair_particles s' ! k) = a \<and>
                  (constraints (hair (parts (character s))) = [] \<longrightarrow>
                     position (hair_particles s' ! k) = new))"
proof -
  let ?w = "windForce (character s)"
  let ?ps = "map (integrate_particle ?w dt) (hair_particles s)"
  from k have ne: "hair_particles s \<noteq> []" by auto
  from UpdateHairPhysics_nonempty [OF ne, of dt] obtain ps' where
    sa: "satisfy_all ?ps (constraints (hair (parts (character s)))) = Some ps'" and
    up: "UpdateHairPhysics dt s =
                 Some (s\<lparr>character := (character s)\<lparr>parts := (parts (character s))\<lparr>hair :=
                   (hair (parts (character s)))\<lparr>particles := ps',
                      vertices := write_back ps' (vertices (hair (parts (character s))))\<rparr>\<rparr>\<rparr>\<rparr>)"
    by blast
  have q: "?ps ! k = integrate_particle ?w dt (hair_particles s ! k)" using k by simp
  have l: "length ps' = length (hair_particles s)" using satisfy_all_length [OF sa] by simp
  have kk: "k < length ?ps" using k by simp
  note f = satisfy_all_frame [OF sa kk]
  have e: "constraints (hair (parts (character s))) = [] \<Longrightarrow> ps' = ?ps"
    using sa by simp
  show ?thesis
    unfolding Let_def q integrate_particle_unpinned [OF u] up
    using f l e
    by (simp add: q integrate_particle_unpinned [OF u] algebra_simps)
qed

theorem verlet_step_rule_witness:
  "(1 < length (hair_particles (renderer_of (strand 1) (region_of [] []) 0 0)) \<and>
    \<not> pinned (hair_particles (renderer_of (strand 1) (region_of [] []) 0 0) ! 1)) \<and>
   position (map (integrate_particle (Vec3 0 0 0) (1 / 10))
      (hair_particles (renderer_of (strand 1) (region_of [] []) 0 0)) ! 1) = Vec3 0 0.9019 0 \<and>
   (\<exists>s'. UpdateHairPhysics (1 / 10) (renderer_of (strand 1) (region_of [] []) 0 0) = Some s' \<and>
         oldPosition (hair_particles s' ! 1) = Vec3 0 1 0 \<and>
         acceleration (hair_particles s' ! 1) = Vec3 0 (- 9.81) 0)"
proof -
  let ?s = "renderer_of (strand 1) (region_of [] []) 0 0"
  have h1: "1 < length (hair_particles ?s)"
    by (simp add: renderer_of_def strand_def region_of_def)
  have h2: "\<not> pinned (hair_particles ?s ! 1)"
    by (simp add: renderer_of_def strand_def region_of_def particle_at_def)
  have p: "hair_particles ?s ! 1 = particle_at (Vec3 0 1 0) False"
    by (simp add: renderer_of_def strand_def region_of_def)
  have w: "windForce (character ?s) = Vec3 0 0 0"
    by (simp add: renderer_of_def)
  from verlet_step_rule [OF h1 h2, of "1 / 10"]
  have "position (map (integrate_particle (Vec3 0 0 0) (1 / 10)) (hair_particles ?s) ! 1) =
          Vec3 0 0.9019 0 \<and>
        (\<exists>s'. UpdateHairPhysics (1 / 10) ?s = Some s' \<and>
         oldPosition (hair_particles s' ! 1) = Vec3 0 1 0 \<and>
         acceleration (hair_particles s' ! 1) = Vec3 0 (- 9.81) 0)"
    unfolding Let_def p w
    by (auto simp: particle_at_def power2_eq_square)
  with h1 h2 show ?thesis by blast
qed

section \<open>Constraints that are skipped\<close>

lemma size_t_of_int_mod: "size_t_of_int i = nat (sint i mod 2 ^ 64)"
proof -
  have "uint (scast i :: 64 word) = sint i mod 2 ^ 64"
    by (simp only: scast_eq [of i] uint_word_of_int) simp
  then show ?thesis
    by (simp only: size_t_of_int_def unat_eq_nat_uint)
qed

lemma sint32_range: "- (2 ^ 31) \<le> sint (i :: 32 word) \<and> sint i < 2 ^ 31"
  using sint_ge [of i] sint_lt [of i] by simp

lemma size_t_of_int_nonneg: "0 \<le> sint i \<Longrightarrow> size_t_of_int i = nat (sint i)"
proof -
  assume a: "0 \<le> sint i"
  have "sint i < 2 ^ 64" using sint32_range [of i] by simp
  with a have "sint i mod 2 ^ 64 = sint i" by simp
  then show ?thesis by (simp add: size_t_of_int_mod)
qed

lemma size_t_of_int_neg: "sint i < 0 \<Longrightarrow> size_t_of_int i = nat (2 ^ 64 + sint i)"
proof -
  assume a: "sint i < 0"
  have b: "- (2 ^ 31) \<le> sint i" using sint32_range [of i] by simp
  have "sint i mod 2 ^ 64 = (sint i + 2 ^ 64) mod 2 ^ 64" by simp
  also have "\<dots> = sint i + 2 ^ 64" using a b by (intro mod_pos_pos_trivial) simp_all
  finally show ?thesis by (simp add: size_t_of_int_mod add.commute)
qed

lemma size_t_of_int_out_of_range:
  assumes "n < 2 ^ 63" and "sint i < 0 \<or> int n \<le> sint i"
  shows "n \<le> size_t_of_int i"
proof (cases "sint i < 0")
  case True
  have "- (2 ^ 31) \<le> sint i" using sint32_range [of i] by simp
  then have "(2::int) ^ 63 \<le> 2 ^ 64 + sint i" by simp
  then have "(2::nat) ^ 63 \<le> nat (2 ^ 64 + sint i)" by simp
  with assms(1) show ?thesis by (simp add: size_t_of_int_neg [OF True])
next
  case False
  with assms(2) have "int n \<le> sint i" and "0 \<le> sint i" by simp_all
  then show ?thesis by (simp add: size_t_of_int_nonneg)
qed

lemma size_t_of_int_in_range:
  assumes "0 \<le> sint i" and "sint i < int n"
  shows "size_t_of_int i < n" and "size_t_of_int i = nat (sint i)"
  using assms by (simp_all add: size_t_of_int_nonneg)

lemma glm_length_nonneg: "0 \<le> glm_length a"
  by (simp add: glm_length_def)

lemma glm_length_sub_zero_iff: "glm_length (vec3_sub a b) = 0 \<longleftrightarrow> a = b"
proof -
  have s: "(x * x + y * y + z * z = 0) = (x = 0 \<and> y = 0 \<and> z = 0)" for x y z :: real
  proof -
    have "(x * x + y * y + z * z = 0) = (x * x + y * y = 0 \<and> z * z = 0)"
      by (rule add_nonneg_eq_0_iff) simp_all
    then show ?thesis by simp
  qed
  show ?thesis
    by (cases a; cases b) (simp add: glm_length_def vec3_sub_def s)
qed

lemma satisfy_all_append:
  "satisfy_all ps (cs1 @ cs2) =
     (case satisfy_all ps cs1 of None \<Rightarrow> None | Some ps1 \<Rightarrow> satisfy_all ps1 cs2)"
  by (induction cs1 arbitrary: ps) (simp_all split: option.splits)

text \<open>
  C7. In a pass over the constraints of a region (whose particle count is below
  \<open>2\<^sup>6\<^sup>3\<close>, as that of every \<^verbatim>\<open>std::vector\<close> is), a constraint \<open>(i, j)\<close> met after the
  constraints \<open>cs1\<close> is skipped when one of its indices is out of range (negative, or not
  below the particle count), and when both are in range and the two particles stand at
  the same position (distance zero): the particle list is returned as it is, the
  constraints \<open>cs2\<close> after it are processed as if it were not in the list, and the pass
  returns (the model's only failure is a division by zero, so none is performed).
\<close>

theorem skipped_constraint:
  assumes n: "length ps < 2 ^ 63"
    and p1: "satisfy_all ps cs1 = Some ps1"
    and sk: "(sint i < 0 \<or> int (length ps) \<le> sint i \<or>
              sint j < 0 \<or> int (length ps) \<le> sint j) \<or>
             (0 \<le> sint i \<and> sint i < int (length ps) \<and>
              0 \<le> sint j \<and> sint j < int (length ps) \<and>
              position (ps1 ! nat (sint i)) = position (ps1 ! nat (sint j)))"
  shows "satisfy_constraint ps1 (i, j) = Some ps1 \<and>
         satisfy_all ps (cs1 @ (i, j) # cs2) = satisfy_all ps1 cs2 \<and>
         satisfy_all ps (cs1 @ (i, j) # cs2) = satisfy_all ps (cs1 @ cs2) \<and>
         (\<exists>ps'. satisfy_all ps (cs1 @ (i, j) # cs2) = Some ps' \<and> length ps' = length ps)"
proof -
  have l: "length ps1 = length ps" using p1 by (rule satisfy_all_length)
  have c: "satisfy_constraint ps1 (i, j) = Some ps1"
    using sk
  proof (elim disjE conjE)
    assume "sint i < 0"
    then have "length ps1 \<le> size_t_of_int i"
      using n l by (intro size_t_of_int_out_of_range) simp_all
    then show ?thesis by (simp add: satisfy_constraint_def Let_def)
  next
    assume "int (length ps) \<le> sint i"
    then have "length ps1 \<le> size_t_of_int i"
      using n l by (intro size_t_of_int_out_of_range) simp_all
    then show ?thesis by (simp add: satisfy_constraint_def Let_def)
  next
    assume "sint j < 0"
    then have "length ps1 \<le> size_t_of_int j"
      using n l by (intro size_t_of_int_out_of_range) simp_all
    then show ?thesis by (simp add: satisfy_constraint_def Let_def)
  next
    assume "int (length ps) \<le> sint j"
    then have "length ps1 \<le> size_t_of_int j"
      using n l by (intro size_t_of_int_out_of_range) simp_all
    then show ?thesis by (simp add: satisfy_constraint_def Let_def)
  next
    assume i: "0 \<le> sint i" and j: "0 \<le> sint j"
      and e: "position (ps1 ! nat (sint i)) = position (ps1 ! nat (sint j))"
    have "glm_length (vec3_sub (position (ps1 ! size_t_of_int j))
            (position (ps1 ! size_t_of_int i))) = 0"
      using e by (simp add: glm_length_sub_zero_iff size_t_of_int_nonneg i j)
    then show ?thesis by (simp add: satisfy_constraint_def Let_def)
  qed
  have a: "satisfy_all ps (cs1 @ (i, j) # cs2) = satisfy_all ps1 cs2"
    by (simp add: satisfy_all_append p1 c)
  have b: "satisfy_all ps (cs1 @ cs2) = satisfy_all ps1 cs2"
    by (simp add: satisfy_all_append p1)
  obtain ps' where r: "satisfy_all ps1 cs2 = Some ps'"
    using satisfy_all_total by blast
  have "length ps' = length ps" using satisfy_all_length [OF r] l by simp
  with a b c r show ?thesis by simp
qed

theorem skipped_constraint_witness:
  "length (particles (strand 1)) < 2 ^ 63 \<and>
   satisfy_all (particles (strand 1)) [] = Some (particles (strand 1)) \<and>
   sint (- 1 :: 32 word) < 0 \<and>
   satisfy_constraint (particles (strand 1)) (- 1, 1) = Some (particles (strand 1)) \<and>
   satisfy_all (particles (strand 1)) ([] @ (- 1, 1) # [(0, 1)]) =
     satisfy_all (particles (strand 1)) ([] @ [(0, 1)]) \<and>
   length (particles (strand 0)) < 2 ^ 63 \<and>
   satisfy_all (particles (strand 0)) [] = Some (particles (strand 0)) \<and>
   (0 \<le> sint (0 :: 32 word) \<and> sint (0 :: 32 word) < int (length (particles (strand 0))) \<and>
    0 \<le> sint (1 :: 32 word) \<and> sint (1 :: 32 word) < int (length (particles (strand 0))) \<and>
    position (particles (strand 0) ! nat (sint (0 :: 32 word))) =
    position (particles (strand 0) ! nat (sint (1 :: 32 word)))) \<and>
   satisfy_constraint (particles (strand 0)) (0, 1) = Some (particles (strand 0))"
proof -
  let ?ps = "particles (strand 1)"
  let ?qs = "particles (strand 0)"
  have n: "length ?ps < 2 ^ 63" by (simp add: strand_def region_of_def)
  have p: "satisfy_all ?ps [] = Some ?ps" by simp
  have s: "sint (- 1 :: 32 word) < 0" by simp
  have m: "length ?qs < 2 ^ 63" by (simp add: strand_def region_of_def)
  have q: "satisfy_all ?qs [] = Some ?qs" by simp
  have t: "0 \<le> sint (0 :: 32 word) \<and> sint (0 :: 32 word) < int (length ?qs) \<and>
    0 \<le> sint (1 :: 32 word) \<and> sint (1 :: 32 word) < int (length ?qs) \<and>
    position (?qs ! nat (sint (0 :: 32 word))) = position (?qs ! nat (sint (1 :: 32 word)))"
    by (simp add: strand_def region_of_def particle_at_def)
  from skipped_constraint [OF n p, of "- 1" 1 "[(0, 1)]"] s
  have a: "satisfy_constraint ?ps (- 1, 1) = Some ?ps \<and>
     satisfy_all ?ps ([] @ (- 1, 1) # [(0, 1)]) = satisfy_all ?ps ([] @ [(0, 1)])"
    by blast
  from skipped_constraint [OF m q, of 0 1 "[]"] t
  have b: "satisfy_constraint ?qs (0, 1) = Some ?qs"
    by blast
  from n p s m q t a b show ?thesis by blast
qed

section \<open>Convergence of the constraint pass on two particles\<close>

lemma glm_length_scale: "glm_length (vec3_scale a c) = \<bar>c\<bar> * glm_length a"
proof -
  have "vx a * c * (vx a * c) + vy a * c * (vy a * c) + vz a * c * (vz a * c) =
        (c * c) * (vx a * vx a + vy a * vy a + vz a * vz a)"
    by (simp add: algebra_simps)
  then show ?thesis
    by (simp add: glm_length_def vec3_scale_def real_sqrt_mult)
qed

lemma glm_length_sub_commute: "glm_length (vec3_sub a b) = glm_length (vec3_sub b a)"
proof -
  have "(x - y) * (x - y) = (y - x) * (y - x)" for x y :: real
    by (simp add: algebra_simps)
  then show ?thesis by (simp add: glm_length_def vec3_sub_def)
qed

lemma half_gap:
  fixes d :: real
  assumes d: "0 < d"
  shows "\<bar>1 + (1 / 10 - d) / d * (1 / 2)\<bar> * d = (d + 1 / 10) / 2"
proof -
  have e: "1 + (1 / 10 - d) / d * (1 / 2) = (d + 1 / 10) / (2 * d)"
    using d by (simp add: field_simps)
  have "0 < (d + 1 / 10) / (2 * d)" using d by simp
  then have "\<bar>(d + 1 / 10) / (2 * d)\<bar> = (d + 1 / 10) / (2 * d)" by (rule abs_of_pos)
  moreover have "(d + 1 / 10) / (2 * d) * d = (d + 1 / 10) / 2"
    using d by (simp add: field_simps)
  ultimately show ?thesis by (simp only: e)
qed

lemma vec3_move_second:
  "vec3_sub (vec3_add b (vec3_scale (vec3_scale (vec3_sub b a) k) h)) a =
     vec3_scale (vec3_sub b a) (1 + k * h)"
  by (simp add: vec3_sub_def vec3_add_def vec3_scale_def algebra_simps)

lemma vec3_move_first:
  "vec3_sub b (vec3_sub a (vec3_scale (vec3_scale (vec3_sub b a) k) h)) =
     vec3_scale (vec3_sub b a) (1 + k * h)"
  by (simp add: vec3_sub_def vec3_add_def vec3_scale_def algebra_simps)

lemma move_second:
  assumes "0 < glm_length (vec3_sub b a)"
  shows "glm_length (vec3_sub
           (vec3_add b (vec3_scale (vec3_scale (vec3_sub b a)
              ((1 / 10 - glm_length (vec3_sub b a)) / glm_length (vec3_sub b a))) (1 / 2))) a) =
         (glm_length (vec3_sub b a) + 1 / 10) / 2"
proof -
  show ?thesis
    using half_gap [OF assms] by (simp only: vec3_move_second glm_length_scale)
qed

lemma move_first:
  assumes "0 < glm_length (vec3_sub b a)"
  shows "glm_length (vec3_sub b
           (vec3_sub a (vec3_scale (vec3_scale (vec3_sub b a)
              ((1 / 10 - glm_length (vec3_sub b a)) / glm_length (vec3_sub b a))) (1 / 2)))) =
         (glm_length (vec3_sub b a) + 1 / 10) / 2"
proof -
  show ?thesis
    using half_gap [OF assms] by (simp only: vec3_move_first glm_length_scale)
qed

lemma size_t_of_int_0 [simp]: "size_t_of_int 0 = 0"
  using size_t_of_int_nonneg [of 0] by simp

lemma size_t_of_int_1 [simp]: "size_t_of_int 1 = 1"
  using size_t_of_int_nonneg [of 1] by simp

lemma pass_two_particles:
  assumes c: "c = (0, 1) \<or> c = (1, 0)"
    and p: "pinned p \<noteq> pinned q"
    and d: "0 < endpoint_distance [p, q]"
  shows "\<exists>p' q'. satisfy_constraint [p, q] c = Some [p', q'] \<and>
           pinned p' = pinned p \<and> pinned q' = pinned q \<and>
           (pinned p \<longrightarrow> p' = p) \<and> (pinned q \<longrightarrow> q' = q) \<and>
           endpoint_distance [p', q'] = (endpoint_distance [p, q] + 1 / 10) / 2"
proof -
  let ?a = "position p" and ?b = "position q"
  let ?T = "\<lambda>u v. vec3_scale (vec3_scale (vec3_sub u v)
              ((1 / 10 - glm_length (vec3_sub u v)) / glm_length (vec3_sub u v))) (1 / 2)"
  have e: "endpoint_distance [p, q] = glm_length (vec3_sub ?b ?a)"
    by (simp add: endpoint_distance_def)
  have d1: "0 < glm_length (vec3_sub ?b ?a)" using d by (simp add: endpoint_distance_def)
  have d2: "0 < glm_length (vec3_sub ?a ?b)" using d1 by (simp only: glm_length_sub_commute [of ?a ?b])
  have sw: "glm_length (vec3_sub ?a ?b) = glm_length (vec3_sub ?b ?a)"
    by (rule glm_length_sub_commute)
  consider (A) "c = (0, 1)" "pinned p" "\<not> pinned q"
    | (B) "c = (0, 1)" "\<not> pinned p" "pinned q"
    | (C) "c = (1, 0)" "pinned p" "\<not> pinned q"
    | (D) "c = (1, 0)" "\<not> pinned p" "pinned q"
    using c p by blast
  then show ?thesis
  proof cases
    case A
    have r: "satisfy_constraint [p, q] c = Some [p, q\<lparr>position := vec3_add ?b (?T ?b ?a)\<rparr>]"
      using A d1 by (simp add: satisfy_constraint_def Let_def float_div_def)
    have "endpoint_distance [p, q\<lparr>position := vec3_add ?b (?T ?b ?a)\<rparr>] =
          glm_length (vec3_sub (vec3_add ?b (?T ?b ?a)) ?a)"
      by (simp add: endpoint_distance_def)
    also have "\<dots> = (glm_length (vec3_sub ?b ?a) + 1 / 10) / 2"
      by (rule move_second [OF d1])
    finally show ?thesis using r A e by simp
  next
    case B
    have r: "satisfy_constraint [p, q] c = Some [p\<lparr>position := vec3_sub ?a (?T ?b ?a)\<rparr>, q]"
      using B d1 by (simp add: satisfy_constraint_def Let_def float_div_def)
    have "endpoint_distance [p\<lparr>position := vec3_sub ?a (?T ?b ?a)\<rparr>, q] =
          glm_length (vec3_sub ?b (vec3_sub ?a (?T ?b ?a)))"
      by (simp add: endpoint_distance_def)
    also have "\<dots> = (glm_length (vec3_sub ?b ?a) + 1 / 10) / 2"
      by (rule move_first [OF d1])
    finally show ?thesis using r B e by simp
  next
    case C
    have r: "satisfy_constraint [p, q] c = Some [p, q\<lparr>position := vec3_sub ?b (?T ?a ?b)\<rparr>]"
      using C d2 by (simp add: satisfy_constraint_def Let_def float_div_def)
    have "endpoint_distance [p, q\<lparr>position := vec3_sub ?b (?T ?a ?b)\<rparr>] =
          glm_length (vec3_sub (vec3_sub ?b (?T ?a ?b)) ?a)"
      by (simp add: endpoint_distance_def)
    also have "\<dots> = glm_length (vec3_sub ?a (vec3_sub ?b (?T ?a ?b)))"
      by (rule glm_length_sub_commute)
    also have "\<dots> = (glm_length (vec3_sub ?a ?b) + 1 / 10) / 2"
      by (rule move_first [OF d2])
    finally show ?thesis using r C e sw by simp
  next
    case D
    have r: "satisfy_constraint [p, q] c = Some [p\<lparr>position := vec3_add ?a (?T ?a ?b)\<rparr>, q]"
      using D d2 by (simp add: satisfy_constraint_def Let_def float_div_def)
    have "endpoint_distance [p\<lparr>position := vec3_add ?a (?T ?a ?b)\<rparr>, q] =
          glm_length (vec3_sub ?b (vec3_add ?a (?T ?a ?b)))"
      by (simp add: endpoint_distance_def)
    also have "\<dots> = glm_length (vec3_sub (vec3_add ?a (?T ?a ?b)) ?b)"
      by (rule glm_length_sub_commute)
    also have "\<dots> = (glm_length (vec3_sub ?a ?b) + 1 / 10) / 2"
      by (rule move_second [OF d2])
    finally show ?thesis using r D e sw by simp
  qed
qed

lemma SatisfyConstraints_two_particles:
  assumes r: "particles r = [p, q]" "constraints r = [c]"
    and c: "c = (0, 1) \<or> c = (1, 0)"
    and p: "pinned p \<noteq> pinned q"
    and d: "0 < endpoint_distance [p, q]"
  shows "\<exists>p' q'. SatisfyConstraints r = Some (r\<lparr>particles := [p', q']\<rparr>) \<and>
           pinned p' = pinned p \<and> pinned q' = pinned q \<and>
           (pinned p \<longrightarrow> p' = p) \<and> (pinned q \<longrightarrow> q' = q) \<and>
           endpoint_distance [p', q'] = (endpoint_distance [p, q] + 1 / 10) / 2"
proof -
  from pass_two_particles [OF c p d] obtain p' q' where
    "satisfy_constraint [p, q] c = Some [p', q']" and
    f: "pinned p' = pinned p \<and> pinned q' = pinned q \<and>
       (pinned p \<longrightarrow> p' = p) \<and> (pinned q \<longrightarrow> q' = q) \<and>
       endpoint_distance [p', q'] = (endpoint_distance [p, q] + 1 / 10) / 2"
    by blast
  then have "SatisfyConstraints r = Some (r\<lparr>particles := [p', q']\<rparr>)"
    by (simp add: SatisfyConstraints_def r)
  with f show ?thesis by blast
qed

lemma passes_two_particles:
  assumes "particles r = [p, q]" and "constraints r = [c]"
    and "c = (0, 1) \<or> c = (1, 0)"
    and "pinned p \<noteq> pinned q"
    and "0 < endpoint_distance [p, q]"
  shows "\<exists>p' q'. SatisfyConstraints_passes n r = Some (r\<lparr>particles := [p', q']\<rparr>) \<and>
           pinned p' = pinned p \<and> pinned q' = pinned q \<and>
           (pinned p \<longrightarrow> p' = p) \<and> (pinned q \<longrightarrow> q' = q) \<and>
           endpoint_distance [p', q'] - 1 / 10 = (endpoint_distance [p, q] - 1 / 10) / 2 ^ n"
  using assms
proof (induction n arbitrary: r p q)
  case 0
  have "r\<lparr>particles := [p, q]\<rparr> = r" using "0.prems"(1) by simp
  then have "SatisfyConstraints_passes 0 r = Some (r\<lparr>particles := [p, q]\<rparr>)" by simp
  then show ?case by fastforce
next
  case (Suc n)
  from SatisfyConstraints_two_particles [OF Suc.prems] obtain p1 q1 where
    s: "SatisfyConstraints r = Some (r\<lparr>particles := [p1, q1]\<rparr>)" and
    f: "pinned p1 = pinned p" "pinned q1 = pinned q"
       "pinned p \<longrightarrow> p1 = p" "pinned q \<longrightarrow> q1 = q" and
    g: "endpoint_distance [p1, q1] = (endpoint_distance [p, q] + 1 / 10) / 2"
    by blast
  let ?r1 = "r\<lparr>particles := [p1, q1]\<rparr>"
  have a1: "particles ?r1 = [p1, q1]" by simp
  have a2: "constraints ?r1 = [c]" using Suc.prems(2) by simp
  have a4: "pinned p1 \<noteq> pinned q1" using f Suc.prems(4) by simp
  have a5: "0 < endpoint_distance [p1, q1]" using g Suc.prems(5) by simp
  from Suc.IH [OF a1 a2 Suc.prems(3) a4 a5] obtain p' q' where
    t: "SatisfyConstraints_passes n ?r1 = Some (?r1\<lparr>particles := [p', q']\<rparr>)" and
    h: "pinned p' = pinned p1" "pinned q' = pinned q1"
       "pinned p1 \<longrightarrow> p' = p1" "pinned q1 \<longrightarrow> q' = q1" and
    k: "endpoint_distance [p', q'] - 1 / 10 = (endpoint_distance [p1, q1] - 1 / 10) / 2 ^ n"
    by blast
  have "SatisfyConstraints_passes (Suc n) r = Some (r\<lparr>particles := [p', q']\<rparr>)"
    using s t by simp
  moreover have "endpoint_distance [p', q'] - 1 / 10 =
      (endpoint_distance [p, q] - 1 / 10) / 2 ^ Suc n"
    using k g by (simp add: field_simps)
  ultimately show ?case using f h by auto
qed

lemma passes_coincident:
  assumes "particles r = [p, q]" and "constraints r = [c]"
    and "c = (0, 1) \<or> c = (1, 0)"
    and "endpoint_distance [p, q] = 0"
  shows "SatisfyConstraints_passes n r = Some r"
proof -
  have e: "glm_length (vec3_sub (position q) (position p)) = 0"
    using assms(4) by (simp add: endpoint_distance_def)
  then have e': "glm_length (vec3_sub (position p) (position q)) = 0"
    by (simp only: glm_length_sub_commute [of "position p"])
  have "satisfy_constraint [p, q] c = Some [p, q]"
    using assms(3) e e' by (auto simp: satisfy_constraint_def Let_def)
  then have "SatisfyConstraints r = Some (r\<lparr>particles := [p, q]\<rparr>)"
    by (simp add: SatisfyConstraints_def assms(1,2))
  moreover have "r\<lparr>particles := [p, q]\<rparr> = r" using assms(1) by simp
  ultimately have s: "SatisfyConstraints r = Some r" by simp
  show ?thesis by (induction n) (simp_all add: s)
qed

lemma strand_particles:
  "particles (strand y) = [particle_at (Vec3 0 0 0) True, particle_at (Vec3 0 y 0) False]"
  by (simp add: strand_def region_of_def)

lemma strand_constraints: "constraints (strand y) = [(0, 1)]"
  by (simp add: strand_def region_of_def)

lemma strand_distance: "endpoint_distance (particles (strand y)) = \<bar>y\<bar>"
  by (simp add: strand_particles endpoint_distance_def particle_at_def vec3_sub_def
      glm_length_def)

text \<open>
  C6 (as amended). Take a region of two particles, exactly one of them pinned, with one
  constraint between the two; the rest length is the constant 0.1 of the code. If the two
  positions differ, every pass of \<^verbatim>\<open>SatisfyConstraints\<close> returns and halves the difference
  between the distance and 0.1: after \<open>n\<close> passes the distance minus 0.1 is the initial
  distance minus 0.1, divided by \<open>2\<^sup>n\<close>. So the distance moves towards 0.1 from its own
  side and never crosses it; the pinned particle stays as it is. If the two positions
  coincide, every pass returns the region unchanged and the distance stays 0.
\<close>

theorem constraint_gap_halves:
  assumes l: "length (particles r) = 2"
    and p: "pinned (particles r ! 0) \<noteq> pinned (particles r ! 1)"
    and c: "constraints r = [(0, 1)] \<or> constraints r = [(1, 0)]"
  shows "(0 < endpoint_distance (particles r) \<longrightarrow>
           (\<exists>r'. SatisfyConstraints_passes n r = Some r' \<and>
                 length (particles r') = 2 \<and>
                 endpoint_distance (particles r') - 0.1 =
                   (endpoint_distance (particles r) - 0.1) / 2 ^ n \<and>
                 (pinned (particles r ! 0) \<longrightarrow> particles r' ! 0 = particles r ! 0) \<and>
                 (pinned (particles r ! 1) \<longrightarrow> particles r' ! 1 = particles r ! 1))) \<and>
         (endpoint_distance (particles r) = 0 \<longrightarrow> SatisfyConstraints_passes n r = Some r)"
proof -
  from l obtain p0 q0 where ps: "particles r = [p0, q0]"
    by (cases "particles r"; cases "tl (particles r)") auto
  from c obtain c0 where cs: "constraints r = [c0]" and c0: "c0 = (0, 1) \<or> c0 = (1, 0)"
    by blast
  have p': "pinned p0 \<noteq> pinned q0" using p ps by simp
  show ?thesis
  proof (intro conjI impI)
    assume "0 < endpoint_distance (particles r)"
    then have d: "0 < endpoint_distance [p0, q0]" by (simp only: ps)
    from passes_two_particles [OF ps cs c0 p' d, of n]
    show "\<exists>r'. SatisfyConstraints_passes n r = Some r' \<and>
                 length (particles r') = 2 \<and>
                 endpoint_distance (particles r') - 0.1 =
                   (endpoint_distance (particles r) - 0.1) / 2 ^ n \<and>
                 (pinned (particles r ! 0) \<longrightarrow> particles r' ! 0 = particles r ! 0) \<and>
                 (pinned (particles r ! 1) \<longrightarrow> particles r' ! 1 = particles r ! 1)"
      by (auto simp: ps)
  next
    assume "endpoint_distance (particles r) = 0"
    then have "endpoint_distance [p0, q0] = 0" by (simp only: ps)
    then show "SatisfyConstraints_passes n r = Some r"
      by (rule passes_coincident [OF ps cs c0])
  qed
qed


theorem constraint_gap_halves_witness:
  "(length (particles (strand 1)) = 2 \<and>
    pinned (particles (strand 1) ! 0) \<noteq> pinned (particles (strand 1) ! 1) \<and>
    constraints (strand 1) = [(0, 1)] \<and>
    0 < endpoint_distance (particles (strand 1))) \<and>
   (\<exists>r'. SatisfyConstraints_passes 2 (strand 1) = Some r' \<and>
         endpoint_distance (particles r') = 0.325 \<and>
         particles r' ! 0 = particle_at (Vec3 0 0 0) True) \<and>
   (length (particles (strand 0)) = 2 \<and>
    pinned (particles (strand 0) ! 0) \<noteq> pinned (particles (strand 0) ! 1) \<and>
    constraints (strand 0) = [(0, 1)] \<and>
    endpoint_distance (particles (strand 0)) = 0) \<and>
   SatisfyConstraints_passes 2 (strand 0) = Some (strand 0)"
proof -
  have l: "length (particles (strand y)) = 2" for y by (simp add: strand_particles)
  have p: "pinned (particles (strand y) ! 0) \<noteq> pinned (particles (strand y) ! 1)" for y
    by (simp add: strand_particles particle_at_def)
  have c: "constraints (strand y) = [(0, 1)] \<or> constraints (strand y) = [(1, 0)]" for y
    by (simp add: strand_constraints)
  have d1: "endpoint_distance (particles (strand 1)) = 1" by (simp add: strand_distance)
  have d0: "endpoint_distance (particles (strand 0)) = 0" by (simp add: strand_distance)
  have p0: "pinned (particles (strand 1) ! 0)" "particles (strand 1) ! 0 = particle_at (Vec3 0 0 0) True"
    by (simp_all add: strand_particles particle_at_def)
  from constraint_gap_halves [OF l p c, of 1 2] d1 p0
  have a: "\<exists>r'. SatisfyConstraints_passes 2 (strand 1) = Some r' \<and>
         endpoint_distance (particles r') = 0.325 \<and>
         particles r' ! 0 = particle_at (Vec3 0 0 0) True"
    by auto
  from constraint_gap_halves [OF l p c, of 0 2] d0
  have b: "SatisfyConstraints_passes 2 (strand 0) = Some (strand 0)"
    by simp
  from a b l [of 1] l [of 0] p [of 1] p [of 0] d1 d0 show ?thesis
    by (simp add: strand_constraints)
qed

text \<open>
  The claim as stated fails where the two particles coincide: the strand of height 0 has
  one particle pinned, one free and a constraint between them, its distance 0 is not the
  rest length, and one pass or ten passes return it unchanged.
\<close>

theorem constraint_convergence_counterexample:
  "length (particles (strand 0)) = 2 \<and>
   pinned (particles (strand 0) ! 0) \<and> \<not> pinned (particles (strand 0) ! 1) \<and>
   constraints (strand 0) = [(0, 1)] \<and>
   endpoint_distance (particles (strand 0)) = 0 \<and>
   SatisfyConstraints (strand 0) = Some (strand 0) \<and>
   SatisfyConstraints_passes 10 (strand 0) = Some (strand 0)"
proof -
  have d: "endpoint_distance (particles (strand 0)) = 0" by (simp add: strand_distance)
  then have d0: "endpoint_distance [particle_at (Vec3 0 0 0) True, particle_at (Vec3 0 0 0) False] = 0"
    by (simp only: strand_particles)
  have c: "(0, 1) = (0, 1) \<or> (0, 1) = ((1, 0) :: 32 word \<times> 32 word)" by simp
  have n: "SatisfyConstraints_passes n (strand 0) = Some (strand 0)" for n
    by (rule passes_coincident [OF strand_particles strand_constraints c d0])
  have "SatisfyConstraints_passes (Suc 0) (strand 0) = Some (strand 0)" by (rule n)
  then have s: "SatisfyConstraints (strand 0) = Some (strand 0)"
    by (simp split: option.splits)
  have l: "length (particles (strand 0)) = 2 \<and>
     pinned (particles (strand 0) ! 0) \<and> \<not> pinned (particles (strand 0) ! 1)"
    by (simp add: strand_particles particle_at_def)
  from l d s n [of 10] show ?thesis by (simp only: strand_constraints simp_thms)
qed

section \<open>Blink timing\<close>

lemma UpdateIdleAnimations_fires:
  "3 + real (rnd mod 3) < blinkTimer (character s) + deltaTime s \<Longrightarrow>
     blinkTimer (character (UpdateIdleAnimations time rnd s)) = 0 \<and>
     current (UpdateIdleAnimations time rnd s) = (current s)\<lparr>eyeOpenness := 0.1\<rparr>"
  by (simp add: UpdateIdleAnimations_def Let_def TriggerBlink_def)

lemma UpdateIdleAnimations_waits:
  "\<not> 3 + real (rnd mod 3) < blinkTimer (character s) + deltaTime s \<Longrightarrow>
     blinkTimer (character (UpdateIdleAnimations time rnd s)) =
       blinkTimer (character s) + deltaTime s \<and>
     current (UpdateIdleAnimations time rnd s) = current s"
  by (simp add: UpdateIdleAnimations_def Let_def TriggerBlink_def)

lemma rand_mod_3: "0 \<le> real (rnd mod 3) \<and> real (rnd mod 3) \<le> 2"
proof -
  have "rnd mod 3 < 3" by simp
  then have "rnd mod 3 \<le> 2" by linarith
  then show ?thesis by simp
qed

lemma UpdateHairPhysics_keeps:
  "UpdateHairPhysics dt s = Some s' \<Longrightarrow>
     current s' = current s \<and> blinkTimer (character s') = blinkTimer (character s) \<and>
     enablePhysics s' = enablePhysics s \<and> deltaTime s' = deltaTime s"
proof (cases "hair_particles s = []")
  case True
  assume "UpdateHairPhysics dt s = Some s'"
  with True show ?thesis by (simp add: UpdateHairPhysics_empty)
next
  case False
  assume "UpdateHairPhysics dt s = Some s'"
  with UpdateHairPhysics_nonempty [OF False, of dt] show ?thesis by auto
qed

lemma UpdateClothPhysics_keeps:
  "UpdateClothPhysics dt s = Some s' \<Longrightarrow>
     current s' = current s \<and> blinkTimer (character s') = blinkTimer (character s) \<and>
     enablePhysics s' = enablePhysics s \<and> deltaTime s' = deltaTime s"
  by (cases "skirt_particles s = []") (auto simp: UpdateClothPhysics_def dest: UpdateHairPhysics_keeps)

lemma UpdateClothPhysics_total: "\<exists>s'. UpdateClothPhysics dt s = Some s'"
  using UpdateHairPhysics_total [of dt s] by (simp add: UpdateClothPhysics_def)

lemma UpdateAnimation_expression:
  "\<exists>s'. UpdateAnimation dt now rnd s = Some s' \<and>
        current s' =
          current (UpdateIdleAnimations now rnd (s\<lparr>deltaTime := now - lastFrame s, lastFrame := now\<rparr>)) \<and>
        blinkTimer (character s') =
          blinkTimer (character
            (UpdateIdleAnimations now rnd (s\<lparr>deltaTime := now - lastFrame s, lastFrame := now\<rparr>)))"
proof -
  let ?s4 = "UpdateIdleAnimations now rnd (s\<lparr>deltaTime := now - lastFrame s, lastFrame := now\<rparr>)"
  obtain s5 where h: "UpdateHairPhysics dt ?s4 = Some s5"
    using UpdateHairPhysics_total by blast
  obtain s6 where c: "UpdateClothPhysics dt s5 = Some s6"
    using UpdateClothPhysics_total by blast
  note UpdateHairPhysics_keeps [OF h] UpdateClothPhysics_keeps [OF c]
  then show ?thesis using h c
    by (simp add: UpdateAnimation_def Let_def ApplyMorphTargets_def)
qed

lemma UpdateIdleAnimations_expression:
  "mouthOpenness (current (UpdateIdleAnimations time rnd s)) = mouthOpenness (current s) \<and>
   smileIntensity (current (UpdateIdleAnimations time rnd s)) = smileIntensity (current s) \<and>
   browRaise (current (UpdateIdleAnimations time rnd s)) = browRaise (current s) \<and>
   (eyeOpenness (current (UpdateIdleAnimations time rnd s)) = eyeOpenness (current s) \<or>
    eyeOpenness (current (UpdateIdleAnimations time rnd s)) = 0.1)"
  by (simp add: UpdateIdleAnimations_def Let_def TriggerBlink_def)

lemma bare_renderer_simps:
  "current (bare_renderer timer dt) = default_expression"
  "blinkTimer (character (bare_renderer timer dt)) = timer"
  "deltaTime (bare_renderer timer dt) = dt"
  "lastFrame (bare_renderer timer dt) = 0"
  by (simp_all add: bare_renderer_def renderer_of_def)

lemma InterpolateExpression_current:
  "current (InterpolateExpression target speed s) = (current s)
     \<lparr>eyeOpenness := glm_mix (eyeOpenness (current s)) (eyeOpenness target) (deltaTime s * speed),
      mouthOpenness := glm_mix (mouthOpenness (current s)) (mouthOpenness target) (deltaTime s * speed),
      smileIntensity := glm_mix (smileIntensity (current s)) (smileIntensity target) (deltaTime s * speed),
      browRaise := glm_mix (browRaise (current s)) (browRaise target) (deltaTime s * speed)\<rparr>"
  by (simp add: InterpolateExpression_def Let_def)

text \<open>
  C9 (as amended). One call of \<^verbatim>\<open>UpdateIdleAnimations\<close> adds the stored frame time to the
  blink timer and fires a blink exactly when the sum exceeds \<open>3 + (rand() mod 3)\<close>, a
  threshold of 3, 4 or 5 seconds, whatever \<^verbatim>\<open>rand()\<close> returns. So a blink fires only with
  more than 3 accumulated seconds, and it fires at every call that finds more than 5; a
  call that does not fire leaves at most 5 on the timer, and the timer after a call is
  never above 5. When the blink fires the timer is reset to zero and the eye openness is
  set to 0.1. A blink that fires after a frame of at most one second, from a timer of at
  most 5, fires with at most 6 accumulated seconds.
\<close>

theorem blink_timing:
  "(3 + real (rnd mod 3) < blinkTimer (character s) + deltaTime s \<longrightarrow>
      3 < blinkTimer (character s) + deltaTime s \<and>
      blinkTimer (character (UpdateIdleAnimations time rnd s)) = 0 \<and>
      current (UpdateIdleAnimations time rnd s) = (current s)\<lparr>eyeOpenness := 0.1\<rparr>) \<and>
   (\<not> 3 + real (rnd mod 3) < blinkTimer (character s) + deltaTime s \<longrightarrow>
      blinkTimer (character s) + deltaTime s \<le> 5 \<and>
      blinkTimer (character (UpdateIdleAnimations time rnd s)) =
        blinkTimer (character s) + deltaTime s \<and>
      current (UpdateIdleAnimations time rnd s) = current s) \<and>
   (5 < blinkTimer (character s) + deltaTime s \<longrightarrow>
      3 + real (rnd mod 3) < blinkTimer (character s) + deltaTime s) \<and>
   (blinkTimer (character s) \<le> 5 \<and> deltaTime s \<le> 1 \<longrightarrow>
      blinkTimer (character s) + deltaTime s \<le> 6) \<and>
   blinkTimer (character (UpdateIdleAnimations time rnd s)) \<le> 5"
proof -
  note r = rand_mod_3 [of rnd]
  show ?thesis
  proof (cases "3 + real (rnd mod 3) < blinkTimer (character s) + deltaTime s")
    case True
    from UpdateIdleAnimations_fires [OF True, of time] True r show ?thesis by auto
  next
    case False
    from UpdateIdleAnimations_waits [OF False, of time] False r show ?thesis by auto
  qed
qed

theorem blink_timing_witness:
  "3 + real (0 mod 3) < blinkTimer (character (bare_renderer 3 (1 / 2))) + deltaTime (bare_renderer 3 (1 / 2)) \<and>
   blinkTimer (character (UpdateIdleAnimations 10 0 (bare_renderer 3 (1 / 2)))) = 0 \<and>
   eyeOpenness (current (UpdateIdleAnimations 10 0 (bare_renderer 3 (1 / 2)))) = 0.1 \<and>
   \<not> 3 + real (2 mod 3) < blinkTimer (character (bare_renderer 3 (1 / 2))) + deltaTime (bare_renderer 3 (1 / 2)) \<and>
   blinkTimer (character (UpdateIdleAnimations 10 2 (bare_renderer 3 (1 / 2)))) = 3.5 \<and>
   eyeOpenness (current (UpdateIdleAnimations 10 2 (bare_renderer 3 (1 / 2)))) = 1 \<and>
   blinkTimer (character (bare_renderer 3 (1 / 2))) \<le> 5 \<and> deltaTime (bare_renderer 3 (1 / 2)) \<le> 1"
proof -
  let ?s = "bare_renderer 3 (1 / 2)"
  have h1: "3 + real (0 mod 3) < blinkTimer (character ?s) + deltaTime ?s"
    by (simp add: bare_renderer_simps)
  have h2: "\<not> 3 + real (2 mod 3) < blinkTimer (character ?s) + deltaTime ?s"
    by (simp add: bare_renderer_simps)
  have h3: "blinkTimer (character ?s) \<le> 5 \<and> deltaTime ?s \<le> 1"
    by (simp add: bare_renderer_simps)
  from blink_timing [of 0 ?s 10] h1
  have "blinkTimer (character (UpdateIdleAnimations 10 0 ?s)) = 0 \<and>
        current (UpdateIdleAnimations 10 0 ?s) = (current ?s)\<lparr>eyeOpenness := 0.1\<rparr>"
    by blast
  then have a: "blinkTimer (character (UpdateIdleAnimations 10 0 ?s)) = 0 \<and>
        eyeOpenness (current (UpdateIdleAnimations 10 0 ?s)) = 0.1"
    by simp
  from blink_timing [of 2 ?s 10] h2
  have "blinkTimer (character (UpdateIdleAnimations 10 2 ?s)) =
          blinkTimer (character ?s) + deltaTime ?s \<and>
        current (UpdateIdleAnimations 10 2 ?s) = current ?s"
    by blast
  then have b: "blinkTimer (character (UpdateIdleAnimations 10 2 ?s)) = 3.5 \<and>
        eyeOpenness (current (UpdateIdleAnimations 10 2 ?s)) = 1"
    by (simp add: bare_renderer_simps default_expression_def)
  from h1 h2 h3 a b show ?thesis by blast
qed

text \<open>
  The claim as stated fails after a long frame: from a timer of 0, a frame of 7 seconds
  fires the blink with 7 accumulated seconds, later than 6. The first frame update of a
  renderer whose clock reads 7 is such a frame.
\<close>

theorem blink_timing_counterexample:
  "blinkTimer (character (bare_renderer 0 7)) + deltaTime (bare_renderer 0 7) = 7 \<and>
   blinkTimer (character (UpdateIdleAnimations 7 0 (bare_renderer 0 7))) = 0 \<and>
   eyeOpenness (current (bare_renderer 0 7)) = 1 \<and>
   eyeOpenness (current (UpdateIdleAnimations 7 0 (bare_renderer 0 7))) = 0.1 \<and>
   (\<exists>s'. UpdateAnimation (1 / 60) 7 0 (bare_renderer 0 0) = Some s' \<and>
         eyeOpenness (current s') = 0.1 \<and> blinkTimer (character s') = 0)"
proof -
  let ?s = "bare_renderer 0 7"
  have f: "3 + real (0 mod 3) < blinkTimer (character ?s) + deltaTime ?s"
    by (simp add: bare_renderer_simps)
  note a = UpdateIdleAnimations_fires [OF f, of 7]
  let ?s3 = "(bare_renderer 0 0)\<lparr>deltaTime := 7 - lastFrame (bare_renderer 0 0), lastFrame := 7\<rparr>"
  have g: "3 + real (0 mod 3) < blinkTimer (character ?s3) + deltaTime ?s3"
    by (simp add: bare_renderer_simps)
  note b = UpdateIdleAnimations_fires [OF g, of 7]
  from UpdateAnimation_expression [of "1 / 60" 7 0 "bare_renderer 0 0"] obtain s' where
    u: "UpdateAnimation (1 / 60) 7 0 (bare_renderer 0 0) = Some s'" and
    e: "current s' = current (UpdateIdleAnimations 7 0 ?s3)" and
    t: "blinkTimer (character s') = blinkTimer (character (UpdateIdleAnimations 7 0 ?s3))"
    by blast
  have "eyeOpenness (current s') = 0.1 \<and> blinkTimer (character s') = 0"
    using b by (simp add: e t)
  with u have c: "\<exists>s'. UpdateAnimation (1 / 60) 7 0 (bare_renderer 0 0) = Some s' \<and>
         eyeOpenness (current s') = 0.1 \<and> blinkTimer (character s') = 0" by blast
  from a c show ?thesis
    by (simp add: bare_renderer_simps default_expression_def)
qed

section \<open>Expression interpolation\<close>

text \<open>
  C4. \<^verbatim>\<open>SetEmotion(HAPPY, 1)\<close> on a renderer with the default expression asks for the
  target smileIntensity 1, from the current value 0. With a stored frame time of one
  second the factor of the single mix is 2 and the call takes smileIntensity past the
  target, to 2. With a stored frame time of a quarter of a second the call takes it to
  0.5, and the frame update that follows (\<^verbatim>\<open>UpdateAnimation\<close>) returns and leaves it at
  0.5, no nearer to 1: the target is not kept, and the frame update does not interpolate.
\<close>

theorem expression_misses_target:
  "smileIntensity (SetEmotion_expression (current (bare_renderer 0 1)) HAPPY 1) = 1 \<and>
   smileIntensity (current (bare_renderer 0 1)) = 0 \<and>
   smileIntensity (current (SetEmotion HAPPY 1 (bare_renderer 0 1))) = 2 \<and>
   smileIntensity (current (SetEmotion HAPPY 1 (bare_renderer 0 (1 / 4)))) = 1 / 2 \<and>
   (\<exists>s'. UpdateAnimation (1 / 60) (1 / 60) 0 (SetEmotion HAPPY 1 (bare_renderer 0 (1 / 4))) = Some s' \<and>
         smileIntensity (current s') = 1 / 2)"
proof -
  have a: "smileIntensity (SetEmotion_expression (current (bare_renderer 0 1)) HAPPY 1) = 1"
    by (simp add: SetEmotion_expression_def)
  have b: "smileIntensity (current (bare_renderer 0 1)) = 0"
    by (simp add: bare_renderer_simps default_expression_def)
  have c: "smileIntensity (current (SetEmotion HAPPY 1 (bare_renderer 0 dt))) = dt * 2" for dt
    by (simp add: SetEmotion_def AnimateFacialExpression_def InterpolateExpression_current
        bare_renderer_simps default_expression_def SetEmotion_expression_def glm_mix_def)
  let ?s = "SetEmotion HAPPY 1 (bare_renderer 0 (1 / 4))"
  let ?s3 = "?s\<lparr>deltaTime := 1 / 60 - lastFrame ?s, lastFrame := 1 / 60\<rparr>"
  from UpdateAnimation_expression [of "1 / 60" "1 / 60" 0 ?s] obtain s' where
    u: "UpdateAnimation (1 / 60) (1 / 60) 0 ?s = Some s'" and
    e: "current s' = current (UpdateIdleAnimations (1 / 60) 0 ?s3)"
    by blast
  have "smileIntensity (current (UpdateIdleAnimations (1 / 60) 0 ?s3)) = smileIntensity (current ?s3)"
    using UpdateIdleAnimations_expression [of "1 / 60" 0 ?s3] by blast
  also have "\<dots> = smileIntensity (current ?s)" by simp
  also have "\<dots> = 1 / 2" using c [of "1 / 4"] by simp
  finally have "smileIntensity (current s') = 1 / 2" by (simp only: e)
  with u have d: "\<exists>s'. UpdateAnimation (1 / 60) (1 / 60) 0 ?s = Some s' \<and>
         smileIntensity (current s') = 1 / 2" by blast
  from a b c [of 1] c [of "1 / 4"] d show ?thesis by simp
qed

section \<open>The emotion table\<close>

text \<open>
  C3. \<^verbatim>\<open>SetEmotion(HAPPY, 2)\<close> against \<^verbatim>\<open>SetEmotion(HAPPY, 1)\<close>, 1 being 2 clamped to
  \<open>[0, 1]\<close>: the expression built for intensity 2 stores the clamped intensity 1 but takes
  its smileIntensity 2 and eyeOpenness 1.4 from the unclamped value, where intensity 1
  gives 1 and 1.2; on a renderer with a stored frame time of a quarter of a second the
  current smileIntensity becomes 1 instead of 0.5.
\<close>

theorem SetEmotion_unclamped_intensity:
  "glm_clamp 2 0 1 = 1 \<and>
   intensity (SetEmotion_expression default_expression HAPPY 2) = 1 \<and>
   smileIntensity (SetEmotion_expression default_expression HAPPY 2) = 2 \<and>
   eyeOpenness (SetEmotion_expression default_expression HAPPY 2) = 1.4 \<and>
   intensity (SetEmotion_expression default_expression HAPPY (glm_clamp 2 0 1)) = 1 \<and>
   smileIntensity (SetEmotion_expression default_expression HAPPY (glm_clamp 2 0 1)) = 1 \<and>
   eyeOpenness (SetEmotion_expression default_expression HAPPY (glm_clamp 2 0 1)) = 1.2 \<and>
   smileIntensity (current (SetEmotion HAPPY 2 (bare_renderer 0 (1 / 4)))) = 1 \<and>
   smileIntensity (current (SetEmotion HAPPY (glm_clamp 2 0 1) (bare_renderer 0 (1 / 4)))) = 1 / 2"
  by (simp add: SetEmotion_expression_def default_expression_def glm_clamp_def
      SetEmotion_def AnimateFacialExpression_def InterpolateExpression_current
      bare_renderer_simps glm_mix_def)


end
